theory Spec2Isabelle
  imports Complex_Main
begin

section \<open>Numbers and vectors\<close>

text \<open>
  The program computes with JavaScript numbers. They are modelled as \<^typ>\<open>real\<close>:
  rounding is left out, and a division whose divisor can be zero, where JavaScript
  yields \<open>Infinity\<close> and HOL \<open>0\<close>, is pointed out where it occurs.

  A \<open>THREE.Vector3\<close> is a triple of numbers. The operations below are the ones of
  three.js that the program calls; the library mutates the receiver in place, the model
  returns the new vector.
\<close>

datatype vec3 = Vector3 (vx: real) (vy: real) (vz: real)

definition zeroV :: vec3 where
  "zeroV = Vector3 0 0 0"

definition subVectors :: "vec3 \<Rightarrow> vec3 \<Rightarrow> vec3" where
  "subVectors a b = Vector3 (vx a - vx b) (vy a - vy b) (vz a - vz b)"

definition addV :: "vec3 \<Rightarrow> vec3 \<Rightarrow> vec3" where
  "addV a b = Vector3 (vx a + vx b) (vy a + vy b) (vz a + vz b)"

definition subV :: "vec3 \<Rightarrow> vec3 \<Rightarrow> vec3" where
  "subV a b = Vector3 (vx a - vx b) (vy a - vy b) (vz a - vz b)"

definition multiplyScalar :: "vec3 \<Rightarrow> real \<Rightarrow> vec3" where
  "multiplyScalar v s = Vector3 (vx v * s) (vy v * s) (vz v * s)"

definition divideScalar :: "vec3 \<Rightarrow> real \<Rightarrow> vec3" where
  "divideScalar v s = multiplyScalar v (1 / s)"

definition addScaledVector :: "vec3 \<Rightarrow> vec3 \<Rightarrow> real \<Rightarrow> vec3" where
  "addScaledVector a v s = Vector3 (vx a + vx v * s) (vy a + vy v * s) (vz a + vz v * s)"

definition dot :: "vec3 \<Rightarrow> vec3 \<Rightarrow> real" where
  "dot a b = vx a * vx b + vy a * vy b + vz a * vz b"

definition lengthV :: "vec3 \<Rightarrow> real" where
  "lengthV v = sqrt (vx v * vx v + vy v * vy v + vz v * vz v)"

text \<open>\<open>normalize()\<close> is \<open>divideScalar(this.length() || 1)\<close>: the zero vector stays zero.\<close>

definition normalizeV :: "vec3 \<Rightarrow> vec3" where
  "normalizeV v = divideScalar v (if lengthV v = 0 then 1 else lengthV v)"

definition distanceTo :: "vec3 \<Rightarrow> vec3 \<Rightarrow> real" where
  "distanceTo a b =
     sqrt ((vx a - vx b) * (vx a - vx b) + (vy a - vy b) * (vy a - vy b)
           + (vz a - vz b) * (vz a - vz b))"

definition lerp :: "vec3 \<Rightarrow> vec3 \<Rightarrow> real \<Rightarrow> vec3" where
  "lerp a v alpha =
     Vector3 (vx a + (vx v - vx a) * alpha) (vy a + (vy v - vy a) * alpha)
             (vz a + (vz v - vz a) * alpha)"

section \<open>physicsObject.js\<close>

definition GRAVITY :: vec3 where
  "GRAVITY = Vector3 0 (- 981 / 100) 0"

definition GROUND_Y :: real where
  "GROUND_Y = 1 / 1000"

definition DAMPING_FACTOR :: real where
  "DAMPING_FACTOR = 98 / 100"

definition ANGULAR_DAMPING_FACTOR :: real where
  "ANGULAR_DAMPING_FACTOR = 95 / 100"

definition COLLISION_ELASTICITY :: real where
  "COLLISION_ELASTICITY = 7 / 10"

definition BALL_RADIUS :: real where
  "BALL_RADIUS = 1 / 4"

text \<open>
  A \<open>PhysicsObject\<close>. \<open>position\<close> and \<open>rotation\<close> are the ones of its mesh. The
  mesh's material (the highlight colour) is written by \<open>grab\<close> and \<open>release\<close> and never
  read by the physics; it is render state and is not part of the record.
\<close>

record PhysicsObject =
  position :: vec3
  rotation :: vec3
  velocity :: vec3
  angularVelocity :: vec3
  isHeld :: bool
  radius :: real
  mass :: real
  lastCollisionTime :: real

definition newPhysicsObject :: "vec3 \<Rightarrow> PhysicsObject" where
  "newPhysicsObject initialPosition =
     \<lparr> position =
         (if vy initialPosition < GROUND_Y + BALL_RADIUS
          then Vector3 (vx initialPosition) (GROUND_Y + BALL_RADIUS + 2 / 100) (vz initialPosition)
          else initialPosition),
       rotation = zeroV,
       velocity = zeroV,
       angularVelocity = zeroV,
       isHeld = False,
       radius = BALL_RADIUS,
       mass = 1,
       lastCollisionTime = 0 \<rparr>"

definition grab :: "PhysicsObject \<Rightarrow> PhysicsObject" where
  "grab b = b\<lparr> isHeld := True, velocity := zeroV, angularVelocity := zeroV \<rparr>"

text \<open>
  \<open>release(direction, force)\<close>. The three calls of \<open>Math.random()\<close> are the components
  of the argument \<open>rnd\<close>.
\<close>

definition release :: "vec3 \<Rightarrow> real \<Rightarrow> vec3 \<Rightarrow> PhysicsObject \<Rightarrow> PhysicsObject" where
  "release direction force rnd b =
     b\<lparr> isHeld := False,
        velocity := multiplyScalar (normalizeV direction) force,
        angularVelocity :=
          Vector3 ((vx rnd - 1 / 2) * 4) ((vy rnd - 1 / 2) * 4) ((vz rnd - 1 / 2) * 4) \<rparr>"

text \<open>
  \<open>checkCollision(other)\<close> returns the answer and the querying body, whose
  \<open>lastCollisionTime\<close> it stamps on a positive check. \<open>now\<close> is the value of
  \<open>performance.now()\<close>.
\<close>

definition checkCollision :: "PhysicsObject \<Rightarrow> PhysicsObject \<Rightarrow> real \<Rightarrow> bool \<times> PhysicsObject" where
  "checkCollision this other now =
     (if isHeld this \<or> isHeld other then (False, this)
      else let minDistance = radius this + radius other;
               distance = distanceTo (position this) (position other)
           in if now - lastCollisionTime this < 100 then (False, this)
              else if distance < minDistance then (True, this\<lparr> lastCollisionTime := now \<rparr>)
              else (False, this))"

text \<open>
  \<open>resolveCollision(other)\<close> on two distinct bodies; it returns both. \<open>rndThis\<close> and
  \<open>rndOther\<close> hold the six values of \<open>Math.random()\<close>.
\<close>

definition spin :: "vec3 \<Rightarrow> vec3" where
  "spin rnd = Vector3 ((vx rnd - 1 / 2) * (8 / 10)) ((vy rnd - 1 / 2) * (8 / 10))
                      ((vz rnd - 1 / 2) * (8 / 10))"

definition resolveCollision ::
  "PhysicsObject \<Rightarrow> PhysicsObject \<Rightarrow> vec3 \<Rightarrow> vec3 \<Rightarrow> PhysicsObject \<times> PhysicsObject" where
  "resolveCollision this other rndThis rndOther =
     (let collisionNormal = normalizeV (subVectors (position this) (position other));
          relativeVelocity = subVectors (velocity this) (velocity other);
          velAlongNormal = dot relativeVelocity collisionNormal
      in if velAlongNormal > 0 then (this, other)
         else
           let e = COLLISION_ELASTICITY;
               j = - (1 + e) * velAlongNormal;
               j_div_2 = j / 2;
               impulse = multiplyScalar collisionNormal j_div_2;
               penetrationDepth =
                 (radius this + radius other) - distanceTo (position this) (position other);
               correction = multiplyScalar collisionNormal (penetrationDepth * (6 / 10))
           in (this\<lparr> velocity := addV (velocity this) impulse,
                     position := (if penetrationDepth > 0 then addV (position this) correction
                                  else position this),
                     angularVelocity := addV (angularVelocity this) (spin rndThis) \<rparr>,
               other\<lparr> velocity := subV (velocity other) impulse,
                      position := (if penetrationDepth > 0 then subV (position other) correction
                                   else position other),
                      angularVelocity := addV (angularVelocity other) (spin rndOther) \<rparr>))"

definition setPosition :: "vec3 \<Rightarrow> PhysicsObject \<Rightarrow> PhysicsObject" where
  "setPosition p b = (if isHeld b then b\<lparr> position := p \<rparr> else b)"

text \<open>
  \<open>update(deltaTime, handPosition = null)\<close>. The free branch is written as the source's
  sequence of steps: gravity, position, rotation, damping, ground, the two walls.
  \<open>rollSpeed\<close> divides by the radius, which is \<open>BALL_RADIUS\<close> for every constructed body.
\<close>

definition ground :: "PhysicsObject \<Rightarrow> PhysicsObject" where
  "ground b =
     (if vy (position b) < GROUND_Y + radius b then
        let p = Vector3 (vx (position b)) (GROUND_Y + radius b) (vz (position b));
            v = Vector3 (vx (velocity b) * (9 / 10)) (vy (velocity b) * (- 1 / 2))
                        (vz (velocity b) * (9 / 10));
            rollAxis = normalizeV (Vector3 (- vz v) 0 (vx v));
            rollSpeed = lengthV v / radius b
        in b\<lparr> position := p, velocity := v,
              angularVelocity :=
                (if lengthV rollAxis > 1 / 100 then multiplyScalar rollAxis rollSpeed
                 else multiplyScalar (angularVelocity b) (9 / 10)) \<rparr>
      else b)"

definition boundX :: "PhysicsObject \<Rightarrow> PhysicsObject" where
  "boundX b =
     (let BOUND_X = 10 in
      if \<bar>vx (position b)\<bar> > BOUND_X - radius b then
        b\<lparr> position := Vector3 (sgn (vx (position b)) * (BOUND_X - radius b))
                               (vy (position b)) (vz (position b)),
           velocity := Vector3 (vx (velocity b) * (- 1 / 2)) (vy (velocity b)) (vz (velocity b)) \<rparr>
      else b)"

definition boundZ :: "PhysicsObject \<Rightarrow> PhysicsObject" where
  "boundZ b =
     (let BOUND_Z = 10 in
      if \<bar>vz (position b)\<bar> > BOUND_Z - radius b then
        b\<lparr> position := Vector3 (vx (position b)) (vy (position b))
                               (sgn (vz (position b)) * (BOUND_Z - radius b)),
           velocity := Vector3 (vx (velocity b)) (vy (velocity b)) (vz (velocity b) * (- 1 / 2)) \<rparr>
      else b)"

definition integrate :: "real \<Rightarrow> PhysicsObject \<Rightarrow> PhysicsObject" where
  "integrate deltaTime b =
     (let v1 = addScaledVector (velocity b) GRAVITY deltaTime;
          p1 = addScaledVector (position b) v1 deltaTime;
          r1 = addScaledVector (rotation b) (angularVelocity b) deltaTime
      in b\<lparr> position := p1, rotation := r1,
            velocity := multiplyScalar v1 DAMPING_FACTOR,
            angularVelocity := multiplyScalar (angularVelocity b) ANGULAR_DAMPING_FACTOR \<rparr>)"

definition update :: "real \<Rightarrow> vec3 option \<Rightarrow> PhysicsObject \<Rightarrow> PhysicsObject" where
  "update deltaTime handPosition b =
     (case (isHeld b, handPosition) of
        (True, Some h) \<Rightarrow>
          b\<lparr> position := lerp (position b) h (8 / 10), velocity := zeroV,
             angularVelocity := zeroV \<rparr>
      | (True, None) \<Rightarrow> b
      | (False, _) \<Rightarrow> boundZ (boundX (ground (integrate deltaTime b))))"

section \<open>handTracker.js\<close>

text \<open>
  A landmark of the hand-pose sensor. \<open>estimateDepth\<close> reads \<open>handData.landmarks\<close>,
  which is \<open>null\<close> or the array of landmarks of the first hand. Reading a field of an
  entry that the array does not have throws a \<open>TypeError\<close>.
\<close>

datatype landmark = Landmark (lx: real) (ly: real) (lz: real)

datatype error = TypeError

definition points :: "nat list" where
  "points = [0, 5, 9, 13, 17]"

text \<open>
  The index pairs of \<open>for (i = 0; i < n; i++) for (j = i + 1; j < n; j++)\<close>, in the
  order the two loops visit them.
\<close>

definition pairs :: "nat \<Rightarrow> (nat \<times> nat) list" where
  "pairs n = concat (map (\<lambda>i. map (\<lambda>j. (i, j)) [i + 1..<n]) [0..<n])"

definition spreadStep :: "landmark list \<Rightarrow> nat \<times> nat \<Rightarrow> real \<times> nat \<Rightarrow> real \<times> nat" where
  "spreadStep ls ij acc =
     (case ij of (i, j) \<Rightarrow>
      case acc of (totalDistance, count) \<Rightarrow>
        let p1 = ls ! (points ! i);
            p2 = ls ! (points ! j);
            dist = sqrt ((lx p1 - lx p2) ^ 2 + (ly p1 - ly p2) ^ 2)
        in (totalDistance + dist, count + 1))"

definition avgSize :: "landmark list \<Rightarrow> real" where
  "avgSize ls =
     (case fold (spreadStep ls) (pairs (length points)) (0, 0) of
        (totalDistance, count) \<Rightarrow> totalDistance / real count)"

definition estimateDepth :: "landmark list option \<Rightarrow> error + real" where
  "estimateDepth landmarks =
     (case landmarks of
        None \<Rightarrow> Inr (1 / 2)
      | Some ls \<Rightarrow>
          if length ls < 5 then Inr (1 / 2)
          else if length ls \<le> 17 then Inl TypeError
          else
            let MIN_SIZE = 5 / 100;
                MAX_SIZE = 3 / 10;
                normalizedDepth = (avgSize ls - MIN_SIZE) / (MAX_SIZE - MIN_SIZE)
            in Inr (1 - max 0 (min 1 normalizedDepth)))"

text \<open>
  The spec's measure of hand size, in its words: the mean pairwise 2D distance among
  the five reference landmarks, the wrist (0) and the four finger bases (5, 9, 13, 17).
\<close>

definition dist2D :: "landmark \<Rightarrow> landmark \<Rightarrow> real" where
  "dist2D p q = sqrt ((lx p - lx q) ^ 2 + (ly p - ly q) ^ 2)"

definition meanPairwiseDistance :: "landmark list \<Rightarrow> real" where
  "meanPairwiseDistance ls =
     (dist2D (ls ! 0) (ls ! 5) + dist2D (ls ! 0) (ls ! 9) + dist2D (ls ! 0) (ls ! 13)
      + dist2D (ls ! 0) (ls ! 17) + dist2D (ls ! 5) (ls ! 9) + dist2D (ls ! 5) (ls ! 13)
      + dist2D (ls ! 5) (ls ! 17) + dist2D (ls ! 9) (ls ! 13) + dist2D (ls ! 9) (ls ! 17)
      + dist2D (ls ! 13) (ls ! 17)) / 10"

section \<open>game.js\<close>

definition GRAB_THRESHOLD :: real where
  "GRAB_THRESHOLD = 12 / 10"

definition THROW_FORCE :: real where
  "THROW_FORCE = 15"

definition THROW_HISTORY_LENGTH :: nat where
  "THROW_HISTORY_LENGTH = 5"

text \<open>
  The state of \<open>Game\<close> that \<open>update\<close> reads and writes. \<open>heldObject\<close> is a reference to
  one of \<open>physicsObjects\<close> or \<open>null\<close>: here the index of that object or \<open>None\<close>.
  The hand indicator contributes its position and its visibility; colours, the depth
  ring and the ground shadow are render state and are left out, as is the block that
  highlights the objects in reach, which writes materials only.
\<close>

record Game =
  physicsObjects :: "PhysicsObject list"
  heldObject :: "nat option"
  handIndicatorPosition :: vec3
  handIndicatorVisible :: bool
  handPositionHistory :: "vec3 list"
  lastGrabPosition :: "vec3 option"

text \<open>
  What one call of \<open>Game.update\<close> takes from outside: \<open>delta\<close> is \<open>clock.getDelta()\<close>;
  \<open>landmarks\<close> says whether \<open>handData.landmarks\<close> is set and \<open>isGrabbing\<close> is
  \<open>handData.isGrabbing\<close>; \<open>projected\<close> is the world position that
  \<open>updateWorldPositionFromScreen\<close> gives the hand indicator; \<open>intersects\<close> is the
  raycaster's answer, the index of each hit mesh with its distance;
  \<open>cameraDirection\<close> is \<open>camera.getWorldDirection\<close>; \<open>releaseRandom\<close> holds the three
  values of \<open>Math.random()\<close> in \<open>release\<close>; \<open>performanceNow i j\<close> and
  \<open>mathRandom i j\<close> are the clock reading and the six random values of the collision
  check and response of the pair \<open>(i, j)\<close>.
\<close>

record Frame =
  delta :: real
  landmarks :: bool
  isGrabbing :: bool
  projected :: vec3
  intersects :: "(nat \<times> real) list"
  cameraDirection :: vec3
  releaseRandom :: vec3
  performanceNow :: "nat \<Rightarrow> nat \<Rightarrow> real"
  mathRandom :: "nat \<Rightarrow> nat \<Rightarrow> vec3 \<times> vec3"

text \<open>\<open>push\<close>, then \<open>shift\<close> when the history is longer than \<open>THROW_HISTORY_LENGTH\<close>.\<close>

definition pushHistory :: "vec3 \<Rightarrow> vec3 list \<Rightarrow> vec3 list" where
  "pushHistory p history =
     (let h = history @ [p] in if length h > THROW_HISTORY_LENGTH then tl h else h)"

text \<open>The hand indicator update at the start of \<open>update\<close>.\<close>

definition trackHand :: "Frame \<Rightarrow> Game \<Rightarrow> Game" where
  "trackHand f g =
     (if landmarks f then
        g\<lparr> handIndicatorVisible := True,
           handIndicatorPosition := projected f,
           handPositionHistory := pushHistory (projected f) (handPositionHistory g) \<rparr>
      else g\<lparr> handIndicatorVisible := False \<rparr>)"

text \<open>
  The grab candidates: the ray hits whose mesh belongs to a physics object, then every
  object that is not held, closer to the hand than \<open>GRAB_THRESHOLD\<close> and not yet a
  candidate.
\<close>

definition rayCandidates :: "PhysicsObject list \<Rightarrow> (nat \<times> real) list \<Rightarrow> (nat \<times> real) list" where
  "rayCandidates objs hits = filter (\<lambda>c. fst c < length objs) hits"

definition nearCandidate ::
  "PhysicsObject list \<Rightarrow> vec3 \<Rightarrow> nat \<Rightarrow> (nat \<times> real) list \<Rightarrow> (nat \<times> real) list" where
  "nearCandidate objs hand k cands =
     (if \<not> isHeld (objs ! k) then
        let distance = distanceTo (position (objs ! k)) hand
        in if distance < GRAB_THRESHOLD then
             (case find (\<lambda>c. fst c = k) cands of
                None \<Rightarrow> cands @ [(k, distance)]
              | Some existingCandidate \<Rightarrow> cands)
           else cands
      else cands)"

definition grabCandidates ::
  "PhysicsObject list \<Rightarrow> (nat \<times> real) list \<Rightarrow> vec3 \<Rightarrow> (nat \<times> real) list" where
  "grabCandidates objs hits hand =
     fold (nearCandidate objs hand) [0..<length objs] (rayCandidates objs hits)"

text \<open>
  A new grab: the candidates are sorted by distance (the sort is stable) and the first
  one is grabbed.
\<close>

definition startGrab :: "Frame \<Rightarrow> Game \<Rightarrow> Game" where
  "startGrab f g =
     (let g1 = g\<lparr> lastGrabPosition := Some (handIndicatorPosition g),
                  handPositionHistory := [] \<rparr>
      in case sort_key snd (grabCandidates (physicsObjects g) (intersects f)
                              (handIndicatorPosition g)) of
           [] \<Rightarrow> g1
         | c # rest \<Rightarrow>
             g1\<lparr> heldObject := Some (fst c),
                 physicsObjects :=
                   (physicsObjects g)[fst c := grab (physicsObjects g ! fst c)] \<rparr>)"

text \<open>The recording of the hand position while an object is held.\<close>

definition keepHolding :: "Game \<Rightarrow> Game" where
  "keepHolding g =
     (if length (handPositionHistory g) > 0 then
        let lastPos = last (handPositionHistory g)
        in if distanceTo lastPos (handIndicatorPosition g) > 1 / 100 then
             g\<lparr> handPositionHistory :=
                   pushHistory (handIndicatorPosition g) (handPositionHistory g) \<rparr>
           else g
      else g)"

text \<open>
  The throw direction and force. \<open>throwVector.normalize()\<close> normalises the vector in
  place, so the \<open>throwVector.length()\<close> that follows is the length of the unit vector.
  For \<open>deltaTime = 0\<close> the quotient is \<open>Infinity\<close> in JavaScript (the numerator is
  positive) and the clamp yields the upper bound.
\<close>

definition throwParams :: "vec3 list \<Rightarrow> real \<Rightarrow> vec3 \<Rightarrow> vec3 \<times> real" where
  "throwParams history deltaTime cameraDir =
     (let fallback = (normalizeV (Vector3 0 (3 / 10) (- 1)), THROW_FORCE);
          (throwDirection, throwForce) =
            (if length history \<ge> 2 then
               let startPos = history ! 0;
                   endPos = history ! (length history - 1);
                   throwVector = subVectors endPos startPos
               in if lengthV throwVector > 5 / 100 then
                    let amplified = Vector3 (vx throwVector * (25 / 10))
                                            (max (2 / 10) (vy throwVector))
                                            (vz throwVector * (25 / 10));
                        normalized = normalizeV amplified;
                        handSpeed = lengthV normalized / (real (length history) * deltaTime)
                    in (normalized,
                        if real (length history) * deltaTime = 0 then THROW_FORCE * (15 / 10)
                        else min (THROW_FORCE * (15 / 10))
                                 (max (THROW_FORCE * (7 / 10)) (handSpeed * 5)))
                  else fallback
             else fallback)
      in if lengthV throwDirection < 1 / 10 then
           (Vector3 (vx cameraDir) (max (2 / 10) (vy cameraDir + 2 / 10)) (vz cameraDir),
            throwForce)
         else (throwDirection, throwForce))"

definition throwHeld :: "Frame \<Rightarrow> nat \<Rightarrow> Game \<Rightarrow> Game" where
  "throwHeld f k g =
     (case throwParams (handPositionHistory g) (delta f) (cameraDirection f) of
        (throwDirection, throwForce) \<Rightarrow>
          g\<lparr> physicsObjects :=
               (physicsObjects g)[k := release throwDirection throwForce (releaseRandom f)
                                         (physicsObjects g ! k)],
             heldObject := None,
             handPositionHistory := [],
             lastGrabPosition := None \<rparr>)"

definition handleGrab :: "Frame \<Rightarrow> Game \<Rightarrow> Game" where
  "handleGrab f g =
     (if isGrabbing f then
        (case heldObject g of None \<Rightarrow> startGrab f g | Some k \<Rightarrow> keepHolding g)
      else
        (case heldObject g of None \<Rightarrow> g | Some k \<Rightarrow> throwHeld f k g))"

text \<open>The held object follows the hand; every other object is integrated.\<close>

definition updateHeld :: "Frame \<Rightarrow> Game \<Rightarrow> Game" where
  "updateHeld f g =
     (case heldObject g of
        None \<Rightarrow> g
      | Some k \<Rightarrow>
          g\<lparr> physicsObjects :=
               (physicsObjects g)[k := update (delta f) (Some (handIndicatorPosition g))
                                         (physicsObjects g ! k)] \<rparr>)"

definition updateFreeStep ::
  "real \<Rightarrow> nat option \<Rightarrow> nat \<Rightarrow> PhysicsObject list \<Rightarrow> PhysicsObject list" where
  "updateFreeStep deltaTime held k objs =
     (if held = Some k then objs else objs[k := update deltaTime None (objs ! k)])"

definition updateFree :: "Frame \<Rightarrow> Game \<Rightarrow> Game" where
  "updateFree f g =
     g\<lparr> physicsObjects :=
          fold (updateFreeStep (delta f) (heldObject g)) [0..<length (physicsObjects g)]
               (physicsObjects g) \<rparr>"

text \<open>
  The collision pass. Besides the objects it returns the list of the pairs for which
  \<open>resolveCollision\<close> ran, in the order they ran.
\<close>

definition collidePair ::
  "Frame \<Rightarrow> nat option \<Rightarrow> nat \<times> nat \<Rightarrow> PhysicsObject list \<times> (nat \<times> nat) list
     \<Rightarrow> PhysicsObject list \<times> (nat \<times> nat) list" where
  "collidePair f held ij s =
     (case ij of (i, j) \<Rightarrow>
      case s of (objs, resolved) \<Rightarrow>
        if held = Some i \<or> held = Some j then (objs, resolved)
        else
          (case checkCollision (objs ! i) (objs ! j) (performanceNow f i j) of
             (True, objA) \<Rightarrow>
               (case resolveCollision objA (objs ! j) (fst (mathRandom f i j))
                       (snd (mathRandom f i j)) of
                  (a, b) \<Rightarrow> (objs[i := a, j := b], resolved @ [(i, j)]))
           | (False, objA) \<Rightarrow> (objs[i := objA], resolved)))"

definition collisionPass ::
  "Frame \<Rightarrow> nat option \<Rightarrow> PhysicsObject list \<Rightarrow> PhysicsObject list \<times> (nat \<times> nat) list" where
  "collisionPass f held objs = fold (collidePair f held) (pairs (length objs)) (objs, [])"

definition collisions :: "Frame \<Rightarrow> Game \<Rightarrow> Game" where
  "collisions f g =
     g\<lparr> physicsObjects := fst (collisionPass f (heldObject g) (physicsObjects g)) \<rparr>"

definition beforeCollisions :: "Frame \<Rightarrow> Game \<Rightarrow> Game" where
  "beforeCollisions f g = updateFree f (updateHeld f (handleGrab f (trackHand f g)))"

definition Game_update :: "Frame \<Rightarrow> Game \<Rightarrow> Game" where
  "Game_update f g = collisions f (beforeCollisions f g)"

text \<open>The pairs that \<open>resolveCollision\<close> ran for in the tick \<open>Game_update f g\<close>.\<close>

definition resolvedPairs :: "Frame \<Rightarrow> Game \<Rightarrow> (nat \<times> nat) list" where
  "resolvedPairs f g =
     snd (collisionPass f (heldObject (beforeCollisions f g))
            (physicsObjects (beforeCollisions f g)))"

section \<open>The points of a tick\<close>

text \<open>
  A held body is at rest: its velocity and its angular velocity are zero.
\<close>

definition heldZero :: "PhysicsObject \<Rightarrow> bool" where
  "heldZero b = (isHeld b \<longrightarrow> velocity b = zeroV \<and> angularVelocity b = zeroV)"

text \<open>
  The states a loop passes through: \<open>trace step xs s\<close> lists \<open>s\<close> and the state after
  each step of \<open>fold step xs s\<close>.
\<close>

fun trace :: "('a \<Rightarrow> 's \<Rightarrow> 's) \<Rightarrow> 'a list \<Rightarrow> 's \<Rightarrow> 's list" where
  "trace step [] s = [s]"
| "trace step (x # xs) s = s # trace step xs (step x s)"

text \<open>
  The physics objects at the points of one call of \<open>Game.update\<close>: after the grab or the
  release, then before and after each object's \<open>update\<close> (the held object first), then
  before and after each pair of the collision pass. The last entry is the objects at the
  end of the tick.
\<close>

definition tickTrace :: "Frame \<Rightarrow> Game \<Rightarrow> PhysicsObject list list" where
  "tickTrace f g =
     (let g1 = handleGrab f (trackHand f g);
          g2 = updateHeld f g1;
          g3 = updateFree f g2
      in [physicsObjects g1]
         @ trace (updateFreeStep (delta f) (heldObject g2)) [0..<length (physicsObjects g2)]
             (physicsObjects g2)
         @ map fst (trace (collidePair f (heldObject g3)) (pairs (length (physicsObjects g3)))
                      (physicsObjects g3, [])))"

section \<open>The collision stamps\<close>

text \<open>
  The state of the collision pass, the objects and the pairs resolved so far, against the
  stamps \<open>before\<close> the pass: there are \<open>n\<close> objects, no \<open>lastCollisionTime\<close> has
  decreased, and every resolved pair was checked at least 100 ms after the earlier stamp
  of its first object, which carries a stamp no earlier than that check.
\<close>

definition stamped :: "Frame \<Rightarrow> nat \<Rightarrow> (nat \<Rightarrow> real) \<Rightarrow> PhysicsObject list \<times> (nat \<times> nat) list \<Rightarrow> bool" where
  "stamped f n before s =
     (length (fst s) = n
      \<and> (\<forall>k < n. before k \<le> lastCollisionTime (fst s ! k))
      \<and> (\<forall>ij \<in> set (snd s).
            fst ij < n
            \<and> performanceNow f (fst ij) (snd ij) \<le> lastCollisionTime (fst s ! fst ij)
            \<and> before (fst ij) + 100 \<le> performanceNow f (fst ij) (snd ij)))"

section \<open>Sample inputs\<close>

text \<open>
  A game in which the only object is held and one hand sample is recorded, and a frame in
  which the hand is seen pinching at that same position.
\<close>

definition holdingGame :: Game where
  "holdingGame =
     \<lparr> physicsObjects = [grab (newPhysicsObject (Vector3 0 1 0))],
       heldObject = Some 0,
       handIndicatorPosition = Vector3 0 1 0,
       handIndicatorVisible = True,
       handPositionHistory = [Vector3 0 1 0],
       lastGrabPosition = Some (Vector3 0 1 0) \<rparr>"

definition stillFrame :: Frame where
  "stillFrame =
     \<lparr> delta = 16 / 1000,
       landmarks = True,
       isGrabbing = True,
       projected = Vector3 0 1 0,
       intersects = [],
       cameraDirection = Vector3 0 0 (- 1),
       releaseRandom = Vector3 (1 / 2) (1 / 2) (1 / 2),
       performanceNow = (\<lambda>i j. 1000),
       mathRandom = (\<lambda>i j. (Vector3 (1 / 2) (1 / 2) (1 / 2), Vector3 (1 / 2) (1 / 2) (1 / 2))) \<rparr>"

text \<open>Two hands of 21 landmarks: one spread along the horizontal axis, one collapsed to a point.\<close>

definition spreadHand :: "landmark list" where
  "spreadHand = map (\<lambda>k. Landmark (real k / 100) (1 / 2) 0) [0..<21]"

definition pointHand :: "landmark list" where
  "pointHand = replicate 21 (Landmark (1 / 2) (1 / 2) 0)"

text \<open>
  Two free balls that overlap, one above the other, and a frame without a hand whose
  clock reads \<open>t\<close> at every collision check.
\<close>

definition twoBalls :: Game where
  "twoBalls =
     \<lparr> physicsObjects = [newPhysicsObject (Vector3 0 1 0), newPhysicsObject (Vector3 0 (6 / 5) 0)],
       heldObject = None,
       handIndicatorPosition = Vector3 0 0 0,
       handIndicatorVisible = False,
       handPositionHistory = [],
       lastGrabPosition = None \<rparr>"

definition idleFrame :: "real \<Rightarrow> Frame" where
  "idleFrame t =
     \<lparr> delta = 1 / 60,
       landmarks = False,
       isGrabbing = False,
       projected = Vector3 0 0 0,
       intersects = [],
       cameraDirection = Vector3 0 0 (- 1),
       releaseRandom = Vector3 (1 / 2) (1 / 2) (1 / 2),
       performanceNow = (\<lambda>i j. t),
       mathRandom = (\<lambda>i j. (Vector3 (1 / 2) (1 / 2) (1 / 2), Vector3 (1 / 2) (1 / 2) (1 / 2))) \<rparr>"

section \<open>Properties of a single body\<close>

text \<open>
  C9. \<open>update\<close> on a held body without a hand target changes nothing: position, rotation,
  velocity, angular velocity and every other field stay as they are.
\<close>

theorem update_held_no_target: "isHeld b \<Longrightarrow> update deltaTime None b = b"
  by (simp add: update_def)

theorem update_held_no_target_witness:
  "isHeld (grab (newPhysicsObject (Vector3 0 1 0)))
   \<and> update (16 / 1000) None (grab (newPhysicsObject (Vector3 0 1 0)))
       = grab (newPhysicsObject (Vector3 0 1 0))"
  using update_held_no_target [of "grab (newPhysicsObject (Vector3 0 1 0))" "16 / 1000"]
  by (simp add: grab_def)

text \<open>
  C10. \<open>release\<close> with a direction of length zero still clears the held flag and still
  assigns the randomised angular velocity; the linear velocity is the zero vector.
\<close>

theorem release_zero_direction:
  "lengthV direction = 0 \<Longrightarrow>
     isHeld (release direction force rnd b) = False
     \<and> velocity (release direction force rnd b) = zeroV
     \<and> angularVelocity (release direction force rnd b)
         = Vector3 ((vx rnd - 1 / 2) * 4) ((vy rnd - 1 / 2) * 4) ((vz rnd - 1 / 2) * 4)"
proof -
  assume len: "lengthV direction = 0"
  have sq: "vx direction * vx direction + vy direction * vy direction
            + vz direction * vz direction = 0"
    using len by (simp add: lengthV_def)
  have "vx direction * vx direction = 0" "vy direction * vy direction = 0"
       "vz direction * vz direction = 0"
    using sq zero_le_square [of "vx direction"] zero_le_square [of "vy direction"]
      zero_le_square [of "vz direction"] by linarith+
  then have "vx direction = 0" "vy direction = 0" "vz direction = 0"
    by simp_all
  then show ?thesis
    by (simp add: release_def normalizeV_def divideScalar_def multiplyScalar_def zeroV_def)
qed

theorem release_zero_direction_witness:
  "lengthV zeroV = 0
   \<and> isHeld (release zeroV 15 (Vector3 (3 / 4) (1 / 4) (1 / 2))
               (grab (newPhysicsObject (Vector3 0 1 0)))) = False
   \<and> velocity (release zeroV 15 (Vector3 (3 / 4) (1 / 4) (1 / 2))
                 (grab (newPhysicsObject (Vector3 0 1 0)))) = zeroV
   \<and> angularVelocity (release zeroV 15 (Vector3 (3 / 4) (1 / 4) (1 / 2))
                        (grab (newPhysicsObject (Vector3 0 1 0)))) = Vector3 1 (- 1) 0"
proof -
  have len: "lengthV zeroV = 0"
    by (simp add: lengthV_def zeroV_def)
  show ?thesis
    using len release_zero_direction [OF len, of 15 "Vector3 (3 / 4) (1 / 4) (1 / 2)"
        "grab (newPhysicsObject (Vector3 0 1 0))"]
    by simp
qed

lemma ground_height: "GROUND_Y + radius b \<le> vy (position (ground b))"
  by (simp add: ground_def Let_def)

lemma boundX_height: "vy (position (boundX b)) = vy (position b)"
  by (simp add: boundX_def Let_def)

lemma boundZ_height: "vy (position (boundZ b)) = vy (position b)"
  by (simp add: boundZ_def Let_def)

lemma boundX_radius: "radius (boundX b) = radius b"
  by (simp add: boundX_def Let_def)

lemma boundZ_radius: "radius (boundZ b) = radius b"
  by (simp add: boundZ_def Let_def)

lemma ground_radius: "radius (ground b) = radius b"
  by (simp add: ground_def Let_def)

lemma integrate_radius: "radius (integrate deltaTime b) = radius b"
  by (simp add: integrate_def Let_def)

lemma update_radius: "radius (update deltaTime handPosition b) = radius b"
  by (simp add: update_def boundX_radius boundZ_radius ground_radius integrate_radius
      split: option.splits bool.splits)

text \<open>
  C3, as amended. After \<open>update\<close>, a body that is not held lies on or above the ground
  plane: its height is at least \<open>GROUND_Y + radius\<close>. The hand-follow branch does not clamp.
\<close>

theorem update_free_above_ground:
  "\<not> isHeld b \<Longrightarrow> GROUND_Y + radius b \<le> vy (position (update deltaTime handPosition b))"
proof -
  assume free: "\<not> isHeld b"
  have "update deltaTime handPosition b = boundZ (boundX (ground (integrate deltaTime b)))"
    using free by (simp add: update_def)
  moreover have "GROUND_Y + radius (integrate deltaTime b)
                 \<le> vy (position (ground (integrate deltaTime b)))"
    by (rule ground_height)
  ultimately show ?thesis
    by (simp add: boundZ_height boundX_height integrate_radius)
qed

theorem update_free_above_ground_witness:
  "\<not> isHeld (newPhysicsObject (Vector3 0 (26 / 100) 0))
   \<and> GROUND_Y + radius (newPhysicsObject (Vector3 0 (26 / 100) 0))
       \<le> vy (position (update (16 / 1000) None (newPhysicsObject (Vector3 0 (26 / 100) 0))))"
proof -
  have free: "\<not> isHeld (newPhysicsObject (Vector3 0 (26 / 100) 0))"
    by (simp add: newPhysicsObject_def)
  show ?thesis
    using free update_free_above_ground [OF free, of "16 / 1000" None] by simp
qed

text \<open>
  A held body whose hand target lies below the ground plane is drawn below it: from
  height 1 towards the target at height -1 it ends at -0.6.
\<close>

theorem update_held_below_ground:
  "\<not> (GROUND_Y + radius (grab (newPhysicsObject (Vector3 0 1 0)))
       \<le> vy (position (update (16 / 1000) (Some (Vector3 0 (- 1) 0))
                         (grab (newPhysicsObject (Vector3 0 1 0))))))"
  by (simp add: update_def grab_def newPhysicsObject_def lerp_def GROUND_Y_def BALL_RADIUS_def)

lemma normalizeV_zero: "normalizeV (Vector3 0 0 0) = Vector3 0 0 0"
  by (simp add: normalizeV_def divideScalar_def multiplyScalar_def lengthV_def)

lemma subVectors_self: "subVectors p p = Vector3 0 0 0"
  by (simp add: subVectors_def)

text \<open>
  C7, as amended. For two bodies with the same centre \<open>resolveCollision\<close> is not skipped:
  it runs with the zero normal. The velocities and positions of both bodies stay as they
  are, and both angular velocities receive the random spin.
\<close>

theorem resolveCollision_coincident:
  "position this = position other \<Longrightarrow>
     velocity (fst (resolveCollision this other rndThis rndOther)) = velocity this
     \<and> velocity (snd (resolveCollision this other rndThis rndOther)) = velocity other
     \<and> position (fst (resolveCollision this other rndThis rndOther)) = position this
     \<and> position (snd (resolveCollision this other rndThis rndOther)) = position other
     \<and> angularVelocity (fst (resolveCollision this other rndThis rndOther))
         = addV (angularVelocity this) (spin rndThis)
     \<and> angularVelocity (snd (resolveCollision this other rndThis rndOther))
         = addV (angularVelocity other) (spin rndOther)"
  by (simp add: resolveCollision_def Let_def subVectors_self normalizeV_zero dot_def
      multiplyScalar_def addV_def subV_def)

theorem resolveCollision_coincident_witness:
  "position (newPhysicsObject (Vector3 0 1 0)) = position (newPhysicsObject (Vector3 0 1 0))
   \<and> velocity (fst (resolveCollision (newPhysicsObject (Vector3 0 1 0))
                     (newPhysicsObject (Vector3 0 1 0)) (Vector3 (3 / 4) (1 / 2) (1 / 2))
                     (Vector3 (1 / 2) (1 / 2) (1 / 4)))) = zeroV
   \<and> angularVelocity (fst (resolveCollision (newPhysicsObject (Vector3 0 1 0))
                     (newPhysicsObject (Vector3 0 1 0)) (Vector3 (3 / 4) (1 / 2) (1 / 2))
                     (Vector3 (1 / 2) (1 / 2) (1 / 4)))) = Vector3 (1 / 5) 0 0"
  using resolveCollision_coincident [of "newPhysicsObject (Vector3 0 1 0)"
      "newPhysicsObject (Vector3 0 1 0)" "Vector3 (3 / 4) (1 / 2) (1 / 2)"
      "Vector3 (1 / 2) (1 / 2) (1 / 4)"]
  by (simp add: newPhysicsObject_def zeroV_def addV_def spin_def)

text \<open>
  With coincident centres and a random value other than one half, the angular velocity of
  the first body changes.
\<close>

theorem resolveCollision_coincident_spins:
  "position (newPhysicsObject (Vector3 0 1 0)) = position (newPhysicsObject (Vector3 0 1 0))
   \<and> angularVelocity (fst (resolveCollision (newPhysicsObject (Vector3 0 1 0))
                     (newPhysicsObject (Vector3 0 1 0)) (Vector3 (3 / 4) (1 / 2) (1 / 2))
                     (Vector3 (1 / 2) (1 / 2) (1 / 4))))
       \<noteq> angularVelocity (newPhysicsObject (Vector3 0 1 0))"
  by (simp add: resolveCollision_def Let_def subVectors_self normalizeV_zero dot_def
      multiplyScalar_def addV_def spin_def newPhysicsObject_def zeroV_def)

section \<open>The throw\<close>

lemma lengthV_zero_iff: "lengthV v = 0 \<longleftrightarrow> vx v = 0 \<and> vy v = 0 \<and> vz v = 0"
proof -
  have "vx v * vx v + vy v * vy v + vz v * vz v = 0 \<longleftrightarrow> vx v = 0 \<and> vy v = 0 \<and> vz v = 0"
    using zero_le_square [of "vx v"] zero_le_square [of "vy v"] zero_le_square [of "vz v"]
    by (smt (verit) mult_eq_0_iff)
  then show ?thesis by (simp add: lengthV_def)
qed

lemma scaled_squares:
  "a * (1 / r) * (a * (1 / r)) + b * (1 / r) * (b * (1 / r)) + c * (1 / r) * (c * (1 / r))
     = (a * a + b * b + c * c) / (r * r)" for a b c r :: real
  by (cases "r = 0") (simp_all add: field_simps)

lemma lengthV_normalizeV: "lengthV v \<noteq> 0 \<Longrightarrow> lengthV (normalizeV v) = 1"
proof -
  assume nz: "lengthV v \<noteq> 0"
  define s where "s = vx v * vx v + vy v * vy v + vz v * vz v"
  define r where "r = sqrt s"
  have s0: "0 \<le> s"
    unfolding s_def by (simp add: add_nonneg_nonneg)
  have l: "lengthV v = r"
    by (simp add: lengthV_def s_def r_def)
  have sq: "r * r = s"
    unfolding r_def using s0 by simp
  have rnz: "r \<noteq> 0"
    using nz l by simp
  have "normalizeV v = Vector3 (vx v * (1 / r)) (vy v * (1 / r)) (vz v * (1 / r))"
    using rnz l by (simp add: normalizeV_def divideScalar_def multiplyScalar_def)
  then have "lengthV (normalizeV v)
          = sqrt (vx v * (1 / r) * (vx v * (1 / r)) + vy v * (1 / r) * (vy v * (1 / r))
                  + vz v * (1 / r) * (vz v * (1 / r)))"
    by (simp only: lengthV_def vec3.sel)
  also have "\<dots> = sqrt (s / (r * r))"
    by (simp only: scaled_squares s_def)
  also have "\<dots> = 1"
    using rnz by (simp add: sq [symmetric])
  finally show ?thesis .
qed

lemma divideScalar_one: "divideScalar w 1 = w"
  by (cases w) (simp add: divideScalar_def multiplyScalar_def)

lemma normalizeV_idem: "normalizeV (normalizeV v) = normalizeV v"
proof (cases "lengthV v = 0")
  case True
  then have "normalizeV v = v"
    by (simp add: normalizeV_def divideScalar_one)
  then show ?thesis by simp
next
  case False
  then have "lengthV (normalizeV v) = 1"
    by (rule lengthV_normalizeV)
  then have "normalizeV (normalizeV v) = divideScalar (normalizeV v) 1"
    by (simp add: normalizeV_def [of "normalizeV v"])
  then show ?thesis
    by (simp add: divideScalar_one)
qed

lemma lengthV_depth: "lengthV (Vector3 0 0 d) = \<bar>d\<bar>"
  by (simp add: lengthV_def)

lemma throwParams_short:
  "length history < 2 \<Longrightarrow>
     throwParams history deltaTime cameraDir = (normalizeV (Vector3 0 (3 / 10) (- 1)), THROW_FORCE)"
proof -
  assume short: "length history < 2"
  have "lengthV (Vector3 0 (3 / 10) (- 1)) \<noteq> 0"
    by (simp add: lengthV_zero_iff)
  then have "lengthV (normalizeV (Vector3 0 (3 / 10) (- 1))) = 1"
    by (rule lengthV_normalizeV)
  then show ?thesis
    using short by (simp add: throwParams_def Let_def)
qed

lemma throwParams_two_samples: "throwParams [Vector3 0 0 0, Vector3 0 0 (1 / 2)] (16 / 1000) cameraDir
     = (normalizeV (Vector3 0 (1 / 5) (5 / 4)), 45 / 2)"
proof -
  have tv: "subVectors (Vector3 0 0 (1 / 2)) (Vector3 0 0 0) = Vector3 0 0 (1 / 2)"
    by (simp add: subVectors_def)
  have len: "lengthV (Vector3 0 0 (1 / 2)) = 1 / 2"
    by (simp add: lengthV_depth)
  have "lengthV (Vector3 0 (1 / 5) (5 / 4)) \<noteq> 0"
    by (simp add: lengthV_zero_iff)
  then have unit: "lengthV (normalizeV (Vector3 0 (1 / 5) (5 / 4))) = 1"
    by (rule lengthV_normalizeV)
  show ?thesis
    by (simp add: throwParams_def Let_def tv len unit THROW_FORCE_def)
qed


text \<open>
  C1, as amended. With the hand history \<open>[(0,0,0), (0,0,0.5)]\<close> and \<open>dt = 0.016\<close> the
  throw vector is \<open>(0,0,0.5)\<close>, of magnitude \<open>0.5 > 0.05\<close>; the throw direction is that
  vector with depth and horizontal components multiplied by 2.5 and the vertical one
  floored at 0.2, normalised; the throw force is the upper bound \<open>22.5\<close> of the clamp.
\<close>

theorem throw_scenario:
  "subVectors (Vector3 0 0 (1 / 2)) (Vector3 0 0 0) = Vector3 0 0 (1 / 2)
   \<and> lengthV (Vector3 0 0 (1 / 2)) = 1 / 2
   \<and> lengthV (Vector3 0 0 (1 / 2)) > 5 / 100
   \<and> throwParams [Vector3 0 0 0, Vector3 0 0 (1 / 2)] (16 / 1000) cameraDir
       = (normalizeV (Vector3 (0 * (25 / 10)) (max (2 / 10) 0) ((1 / 2) * (25 / 10))),
          THROW_FORCE * (15 / 10))
   \<and> THROW_FORCE * (15 / 10) = 45 / 2"
  using throwParams_two_samples [of cameraDir]
  by (simp add: lengthV_depth subVectors_def THROW_FORCE_def)

text \<open>
  The force of that throw is neither the quotient \<open>0.5 / (2 * 0.016)\<close> nor 15.6.
\<close>

theorem throw_scenario_force_not_speed:
  "snd (throwParams [Vector3 0 0 0, Vector3 0 0 (1 / 2)] (16 / 1000) (Vector3 0 0 (- 1)))
     \<noteq> (1 / 2) / (2 * (16 / 1000))
   \<and> snd (throwParams [Vector3 0 0 0, Vector3 0 0 (1 / 2)] (16 / 1000) (Vector3 0 0 (- 1)))
     \<noteq> 156 / 10"
  using throwParams_two_samples [of "Vector3 0 0 (- 1)"] by simp

text \<open>
  C6. With a history of fewer than two samples the throw is the default one: the
  direction is the normalised \<open>(0, 0.3, -1)\<close> and the force is the base force 15.
  Grabbing a body and releasing it with this throw gives it the velocity 15 times
  that direction.
\<close>

theorem grab_release_default_throw:
  "length history < 2 \<Longrightarrow>
     throwParams history deltaTime cameraDir = (normalizeV (Vector3 0 (3 / 10) (- 1)), 15)
     \<and> velocity (release (fst (throwParams history deltaTime cameraDir))
                         (snd (throwParams history deltaTime cameraDir)) rnd (grab b))
         = multiplyScalar (normalizeV (Vector3 0 (3 / 10) (- 1))) 15"
  by (simp add: throwParams_short release_def normalizeV_idem THROW_FORCE_def)

theorem grab_release_default_throw_witness:
  "length ([] :: vec3 list) < 2
   \<and> throwParams [] (16 / 1000) (Vector3 0 0 (- 1)) = (normalizeV (Vector3 0 (3 / 10) (- 1)), 15)
   \<and> velocity (release (fst (throwParams [] (16 / 1000) (Vector3 0 0 (- 1))))
                       (snd (throwParams [] (16 / 1000) (Vector3 0 0 (- 1))))
                       (Vector3 (1 / 2) (1 / 2) (1 / 2))
                       (grab (newPhysicsObject (Vector3 0 1 0))))
       = multiplyScalar (normalizeV (Vector3 0 (3 / 10) (- 1))) 15"
proof -
  have short: "length ([] :: vec3 list) < 2"
    by simp
  show ?thesis
    using short grab_release_default_throw [OF short, of "16 / 1000" "Vector3 0 0 (- 1)"
        "Vector3 (1 / 2) (1 / 2) (1 / 2)" "newPhysicsObject (Vector3 0 1 0)"]
    by blast
qed

section \<open>The depth estimate\<close>

lemma pairs_points:
  "pairs (length points) = [(0,1),(0,2),(0,3),(0,4),(1,2),(1,3),(1,4),(2,3),(2,4),(3,4)]"
  by code_simp

lemma avgSize_mean: "avgSize ls = meanPairwiseDistance ls"
  unfolding avgSize_def pairs_points
  by (simp add: spreadStep_def meanPairwiseDistance_def dist2D_def Let_def points_def)

lemma depth_value:
  "17 < length ls \<Longrightarrow>
     estimateDepth (Some ls)
       = Inr (1 - max 0 (min 1 ((meanPairwiseDistance ls - 5 / 100) / (3 / 10 - 5 / 100))))"
  by (simp add: estimateDepth_def avgSize_mean Let_def)

text \<open>
  C5. For two hands with all reference landmarks present, a smaller (or equal) mean
  pairwise 2D distance among the wrist and the four finger bases gives a depth estimate
  that is greater or equal; both estimates are computed without error.
\<close>

theorem depth_monotonic:
  "17 < length ls1 \<Longrightarrow> 17 < length ls2 \<Longrightarrow>
   meanPairwiseDistance ls2 \<le> meanPairwiseDistance ls1 \<Longrightarrow>
     \<exists>d1 d2. estimateDepth (Some ls1) = Inr d1 \<and> estimateDepth (Some ls2) = Inr d2 \<and> d1 \<le> d2"
proof -
  assume l1: "17 < length ls1" and l2: "17 < length ls2"
    and le: "meanPairwiseDistance ls2 \<le> meanPairwiseDistance ls1"
  have "(meanPairwiseDistance ls2 - 5 / 100) / (3 / 10 - 5 / 100)
        \<le> (meanPairwiseDistance ls1 - 5 / 100) / (3 / 10 - 5 / 100)"
    using le by (simp add: divide_right_mono)
  then have "1 - max 0 (min 1 ((meanPairwiseDistance ls1 - 5 / 100) / (3 / 10 - 5 / 100)))
             \<le> 1 - max 0 (min 1 ((meanPairwiseDistance ls2 - 5 / 100) / (3 / 10 - 5 / 100)))"
    by (simp add: max_def min_def)
  then show ?thesis
    using depth_value [OF l1] depth_value [OF l2] by simp
qed

lemma mean_point: "meanPairwiseDistance pointHand = 0"
  by (simp add: meanPairwiseDistance_def pointHand_def dist2D_def)

lemma mean_spread: "meanPairwiseDistance spreadHand = 84 / 1000"
  by (simp add: meanPairwiseDistance_def spreadHand_def dist2D_def)


theorem depth_monotonic_witness:
  "17 < length spreadHand \<and> 17 < length pointHand
   \<and> meanPairwiseDistance pointHand \<le> meanPairwiseDistance spreadHand
   \<and> (\<exists>d1 d2. estimateDepth (Some spreadHand) = Inr d1
                \<and> estimateDepth (Some pointHand) = Inr d2 \<and> d1 \<le> d2)"
proof -
  have l1: "17 < length spreadHand"
    by (simp add: spreadHand_def)
  have l2: "17 < length pointHand"
    by (simp add: pointHand_def)
  have le: "meanPairwiseDistance pointHand \<le> meanPairwiseDistance spreadHand"
    by (simp add: mean_point mean_spread)
  show ?thesis
    using l1 l2 le depth_monotonic [OF l1 l2 le] by simp
qed

section \<open>Held bodies are at rest\<close>

lemma isHeld_ground: "isHeld (ground b) = isHeld b"
  by (simp add: ground_def Let_def)

lemma isHeld_boundX: "isHeld (boundX b) = isHeld b"
  by (simp add: boundX_def Let_def)

lemma isHeld_boundZ: "isHeld (boundZ b) = isHeld b"
  by (simp add: boundZ_def Let_def)

lemma isHeld_integrate: "isHeld (integrate deltaTime b) = isHeld b"
  by (simp add: integrate_def Let_def)

lemma isHeld_update: "isHeld (update deltaTime handPosition b) = isHeld b"
  by (simp add: update_def isHeld_ground isHeld_boundX isHeld_boundZ isHeld_integrate
      split: option.splits bool.splits)

lemma heldZero_grab: "heldZero (grab b)"
  by (simp add: heldZero_def grab_def)

lemma heldZero_release: "heldZero (release direction force rnd b)"
  by (simp add: heldZero_def release_def)

lemma heldZero_update:
  assumes "heldZero b"
  shows "heldZero (update deltaTime handPosition b)"
proof (cases "isHeld b")
  case True
  with assms show ?thesis
    by (cases handPosition) (simp_all add: update_def heldZero_def)
next
  case False
  then have "\<not> isHeld (update deltaTime handPosition b)"
    by (simp add: isHeld_update)
  then show ?thesis
    by (simp add: heldZero_def)
qed

lemma list_all_update:
  assumes "list_all P xs" and "k < length xs \<Longrightarrow> P v"
  shows "list_all P (xs[k := v])"
proof (cases "k < length xs")
  case True
  with assms show ?thesis
    by (auto simp: list_all_iff dest: set_update_subset_insert [THEN subsetD])
next
  case False
  then have "xs[k := v] = xs"
    by (simp add: list_update_beyond)
  with assms(1) show ?thesis by simp
qed

lemma list_all_nth: "list_all P xs \<Longrightarrow> k < length xs \<Longrightarrow> P (xs ! k)"
  by (simp add: list_all_length)

lemma trace_invariant:
  "(\<And>x s. P s \<Longrightarrow> P (step x s)) \<Longrightarrow> P s \<Longrightarrow> list_all P (trace step xs s)"
  by (induction xs arbitrary: s) simp_all

lemma fold_invariant:
  "(\<And>x s. P s \<Longrightarrow> P (step x s)) \<Longrightarrow> P s \<Longrightarrow> P (fold step xs s)"
  by (induction xs arbitrary: s) simp_all

lemma physicsObjects_trackHand: "physicsObjects (trackHand f g) = physicsObjects g"
  by (simp add: trackHand_def)

lemma heldZero_startGrab:
  "list_all heldZero (physicsObjects g) \<Longrightarrow> list_all heldZero (physicsObjects (startGrab f g))"
  by (simp add: startGrab_def Let_def list_all_update heldZero_grab split: list.splits)

lemma heldZero_throwHeld:
  "list_all heldZero (physicsObjects g) \<Longrightarrow> list_all heldZero (physicsObjects (throwHeld f k g))"
  by (simp add: throwHeld_def list_all_update heldZero_release split: prod.splits)

lemma heldZero_handleGrab:
  "list_all heldZero (physicsObjects g) \<Longrightarrow> list_all heldZero (physicsObjects (handleGrab f g))"
  by (simp add: handleGrab_def keepHolding_def Let_def heldZero_startGrab heldZero_throwHeld
      split: option.splits)

lemma heldZero_updateHeld:
  "list_all heldZero (physicsObjects g) \<Longrightarrow> list_all heldZero (physicsObjects (updateHeld f g))"
  by (simp add: updateHeld_def list_all_update list_all_nth heldZero_update split: option.splits)

lemma heldZero_updateFreeStep:
  "list_all heldZero objs \<Longrightarrow> list_all heldZero (updateFreeStep deltaTime held k objs)"
  by (simp add: updateFreeStep_def list_all_update list_all_nth heldZero_update)

lemma heldZero_checkCollision:
  "heldZero a \<Longrightarrow> checkCollision a b t = (r, a') \<Longrightarrow> heldZero a'"
  by (auto simp: checkCollision_def Let_def heldZero_def split: if_splits)

lemma free_checkCollision:
  "checkCollision a b t = (True, a') \<Longrightarrow> \<not> isHeld a' \<and> \<not> isHeld b"
  by (auto simp: checkCollision_def Let_def split: if_splits)

lemma isHeld_resolveCollision:
  "resolveCollision a b r1 r2 = (a', b') \<Longrightarrow> isHeld a' = isHeld a \<and> isHeld b' = isHeld b"
  by (auto simp: resolveCollision_def Let_def split: if_splits)

lemma heldZero_collidePair:
  "list_all heldZero (fst s) \<Longrightarrow> list_all heldZero (fst (collidePair f held ij s))"
proof -
  assume inv: "list_all heldZero (fst s)"
  obtain i j where ij: "ij = (i, j)" by (cases ij)
  obtain objs resolved where s: "s = (objs, resolved)" by (cases s)
  obtain r objA where chk: "checkCollision (objs ! i) (objs ! j) (performanceNow f i j) = (r, objA)"
    by (cases "checkCollision (objs ! i) (objs ! j) (performanceNow f i j)")
  obtain a b where res:
    "resolveCollision objA (objs ! j) (fst (mathRandom f i j)) (snd (mathRandom f i j)) = (a, b)"
    by (cases "resolveCollision objA (objs ! j) (fst (mathRandom f i j)) (snd (mathRandom f i j))")
  have objs: "list_all heldZero objs"
    using inv s by simp
  show ?thesis
  proof (cases "held = Some i \<or> held = Some j")
    case True
    then show ?thesis
      using objs by (auto simp: collidePair_def ij s)
  next
    case skip: False
    show ?thesis
    proof (cases r)
      case True
      then have "\<not> isHeld objA \<and> \<not> isHeld (objs ! j)"
        using chk free_checkCollision [of "objs ! i" "objs ! j" "performanceNow f i j" objA]
        by simp
      then have "\<not> isHeld a \<and> \<not> isHeld b"
        using isHeld_resolveCollision [OF res] by simp
      then have "heldZero a" "heldZero b"
        by (simp_all add: heldZero_def)
      then have "list_all heldZero (objs[i := a, j := b])"
        using objs by (simp add: list_all_update)
      then show ?thesis
        using skip True chk res by (simp add: collidePair_def ij s)
    next
      case False
      have "i < length objs \<Longrightarrow> heldZero objA"
        using heldZero_checkCollision [OF list_all_nth [OF objs] chk] by simp
      then have "list_all heldZero (objs[i := objA])"
        using objs by (simp add: list_all_update)
      then show ?thesis
        using skip False chk by (simp add: collidePair_def ij s)
    qed
  qed
qed


lemma heldZero_new: "heldZero (newPhysicsObject p)"
  by (simp add: heldZero_def newPhysicsObject_def)

lemma heldZero_beforeFollow:
  "list_all heldZero (physicsObjects g) \<Longrightarrow>
     list_all heldZero (physicsObjects (handleGrab f (trackHand f g)))"
  by (simp add: heldZero_handleGrab physicsObjects_trackHand)

lemma heldZero_updateFree:
  "list_all heldZero (physicsObjects g) \<Longrightarrow> list_all heldZero (physicsObjects (updateFree f g))"
  by (simp add: updateFree_def fold_invariant [where P = "list_all heldZero"]
      heldZero_updateFreeStep)

lemma heldZero_collisions:
  "list_all heldZero (physicsObjects g) \<Longrightarrow> list_all heldZero (physicsObjects (collisions f g))"
  by (simp add: collisions_def collisionPass_def
      fold_invariant [where P = "\<lambda>s. list_all heldZero (fst s)"] heldZero_collidePair)

lemma heldZero_Game_update:
  "list_all heldZero (physicsObjects g) \<Longrightarrow> list_all heldZero (physicsObjects (Game_update f g))"
  by (simp add: Game_update_def beforeCollisions_def heldZero_collisions heldZero_updateFree
      heldZero_updateHeld heldZero_beforeFollow)

lemma heldZero_run:
  "list_all heldZero (physicsObjects g) \<Longrightarrow>
     list_all heldZero (physicsObjects (fold Game_update fs g))"
  by (rule fold_invariant [where P = "\<lambda>g. list_all heldZero (physicsObjects g)"])
    (simp_all add: heldZero_Game_update)

lemma heldZero_tickTrace:
  assumes "list_all heldZero (physicsObjects g)"
  shows "list_all (list_all heldZero) (tickTrace f g)"
proof -
  let ?g1 = "handleGrab f (trackHand f g)"
  let ?g2 = "updateHeld f ?g1"
  let ?g3 = "updateFree f ?g2"
  have g1: "list_all heldZero (physicsObjects ?g1)"
    using assms by (rule heldZero_beforeFollow)
  then have g2: "list_all heldZero (physicsObjects ?g2)"
    by (rule heldZero_updateHeld)
  then have g3: "list_all heldZero (physicsObjects ?g3)"
    by (rule heldZero_updateFree)
  have free: "list_all (list_all heldZero)
      (trace (updateFreeStep (delta f) (heldObject ?g2)) [0..<length (physicsObjects ?g2)]
         (physicsObjects ?g2))"
    using g2 by (simp add: trace_invariant [where P = "list_all heldZero"]
        heldZero_updateFreeStep)
  have coll: "list_all (\<lambda>s. list_all heldZero (fst s))
      (trace (collidePair f (heldObject ?g3)) (pairs (length (physicsObjects ?g3)))
         (physicsObjects ?g3, []))"
    using g3 by (simp add: trace_invariant [where P = "\<lambda>s. list_all heldZero (fst s)"]
        heldZero_collidePair)
  show ?thesis
    using g1 free coll by (simp add: tickTrace_def Let_def list.pred_map comp_def)
qed

lemma last_trace: "last (trace step xs s) = fold step xs s"
  by (induction xs arbitrary: s) (simp_all, (case_tac xs; simp))

lemma trace_nonempty: "trace step xs s \<noteq> []"
  by (cases xs) simp_all

lemma last_tickTrace: "last (tickTrace f g) = physicsObjects (Game_update f g)"
  by (simp add: tickTrace_def Let_def trace_nonempty last_map last_trace Game_update_def
      collisions_def collisionPass_def beforeCollisions_def)

text \<open>
  C2. A new body is not held. If every held body is at rest, then after any number of
  ticks every held body is at rest at every point of the next tick: after the grab or the
  release, after each object's update (hand-follow or integration) and after each pair of
  the collision pass. A held body at rest keeps zero velocity and zero angular velocity
  through \<open>update\<close>, whatever the time step: gravity is not integrated.
\<close>

theorem held_bodies_at_rest:
  "heldZero (newPhysicsObject p)
   \<and> (list_all heldZero (physicsObjects g) \<longrightarrow>
        list_all (list_all heldZero) (tickTrace f (fold Game_update fs g)))
   \<and> (heldZero b \<longrightarrow> isHeld b \<longrightarrow>
        velocity (update deltaTime handPosition b) = zeroV
        \<and> angularVelocity (update deltaTime handPosition b) = zeroV)"
proof -
  have "heldZero b \<Longrightarrow> isHeld b \<Longrightarrow> heldZero (update deltaTime handPosition b)
          \<and> isHeld (update deltaTime handPosition b)"
    by (simp add: heldZero_update isHeld_update)
  then have "heldZero b \<Longrightarrow> isHeld b \<Longrightarrow>
      velocity (update deltaTime handPosition b) = zeroV
      \<and> angularVelocity (update deltaTime handPosition b) = zeroV"
    by (simp add: heldZero_def)
  then show ?thesis
    by (simp add: heldZero_new heldZero_tickTrace heldZero_run)
qed


theorem held_bodies_at_rest_witness:
  "list_all heldZero (physicsObjects holdingGame)
   \<and> isHeld (grab (newPhysicsObject (Vector3 0 1 0)))
   \<and> heldZero (grab (newPhysicsObject (Vector3 0 1 0)))
   \<and> list_all (list_all heldZero) (tickTrace stillFrame (fold Game_update [stillFrame] holdingGame))
   \<and> velocity (update (16 / 1000) (Some (Vector3 0 2 0)) (grab (newPhysicsObject (Vector3 0 1 0))))
       = zeroV"
proof -
  have inv: "list_all heldZero (physicsObjects holdingGame)"
    by (simp add: holdingGame_def heldZero_def grab_def)
  have held: "isHeld (grab (newPhysicsObject (Vector3 0 1 0)))"
    by (simp add: grab_def)
  have rest: "heldZero (grab (newPhysicsObject (Vector3 0 1 0)))"
    by (simp add: heldZero_def grab_def)
  show ?thesis
    using inv held rest
      held_bodies_at_rest [of "Vector3 0 1 0" holdingGame stillFrame "[stillFrame]"
        "grab (newPhysicsObject (Vector3 0 1 0))" "16 / 1000" "Some (Vector3 0 2 0)"]
    by simp
qed

section \<open>The hand position history\<close>

lemma history_updateHeld: "handPositionHistory (updateHeld f g) = handPositionHistory g"
  by (simp add: updateHeld_def split: option.splits)

lemma history_Game_update:
  "handPositionHistory (Game_update f g) = handPositionHistory (handleGrab f (trackHand f g))"
  by (simp add: Game_update_def beforeCollisions_def collisions_def updateFree_def
      history_updateHeld)

lemma distanceTo_self: "distanceTo p p = 0"
  by (simp add: distanceTo_def)

lemma last_pushHistory: "last (pushHistory p history) = p"
  by (cases history) (simp_all add: pushHistory_def Let_def THROW_HISTORY_LENGTH_def)

lemma holding_always_records:
  "landmarks f \<Longrightarrow> isGrabbing f \<Longrightarrow> heldObject g = Some k \<Longrightarrow>
     handPositionHistory (Game_update f g) = pushHistory (projected f) (handPositionHistory g)"
  by (simp add: history_Game_update handleGrab_def trackHand_def keepHolding_def Let_def
      last_pushHistory distanceTo_self)

lemma length_pushHistory:
  "length history \<le> THROW_HISTORY_LENGTH \<Longrightarrow> length (pushHistory p history) \<le> THROW_HISTORY_LENGTH"
  by (simp add: pushHistory_def Let_def)


text \<open>
  C8, at a failing input. An object is held, the history holds one sample, and the hand is
  seen again at the very same position: the tick appends the position all the same.
\<close>

theorem holding_records_unmoved_hand:
  "heldObject holdingGame = Some 0
   \<and> handPositionHistory holdingGame = [Vector3 0 1 0]
   \<and> distanceTo (last (handPositionHistory holdingGame)) (projected stillFrame) = 0
   \<and> handPositionHistory (Game_update stillFrame holdingGame) = [Vector3 0 1 0, Vector3 0 1 0]"
  by (simp add: history_Game_update handleGrab_def trackHand_def keepHolding_def pushHistory_def
      holdingGame_def stillFrame_def distanceTo_self THROW_HISTORY_LENGTH_def Let_def)


section \<open>The collision debounce\<close>

lemma pairs_bounds: "(i, j) \<in> set (pairs n) \<Longrightarrow> i < j \<and> j < n"
  by (auto simp: pairs_def)

lemma checkCollision_False: "checkCollision a b t = (False, a') \<Longrightarrow> a' = a"
  by (auto simp: checkCollision_def Let_def split: if_splits)

lemma checkCollision_True:
  "checkCollision a b t = (True, a') \<Longrightarrow>
     a' = a\<lparr> lastCollisionTime := t \<rparr> \<and> lastCollisionTime a + 100 \<le> t"
  by (auto simp: checkCollision_def Let_def split: if_splits)

lemma lastCollisionTime_resolveCollision:
  "resolveCollision a b r1 r2 = (a', b') \<Longrightarrow>
     lastCollisionTime a' = lastCollisionTime a \<and> lastCollisionTime b' = lastCollisionTime b"
  by (auto simp: resolveCollision_def Let_def split: if_splits)

lemma stamped_collidePair:
  assumes inv: "stamped f n before s" and ij: "i < j" "j < n"
  shows "stamped f n before (collidePair f held (i, j) s)"
proof -
  obtain objs resolved where s: "s = (objs, resolved)" by (cases s)
  obtain r objA where chk: "checkCollision (objs ! i) (objs ! j) (performanceNow f i j) = (r, objA)"
    by (cases "checkCollision (objs ! i) (objs ! j) (performanceNow f i j)")
  obtain a b where res:
    "resolveCollision objA (objs ! j) (fst (mathRandom f i j)) (snd (mathRandom f i j)) = (a, b)"
    by (cases "resolveCollision objA (objs ! j) (fst (mathRandom f i j)) (snd (mathRandom f i j))")
  have len: "length objs = n"
    and lower: "\<And>k. k < n \<Longrightarrow> before k \<le> lastCollisionTime (objs ! k)"
    and logged: "\<And>p q. (p, q) \<in> set resolved \<Longrightarrow>
        p < n \<and> performanceNow f p q \<le> lastCollisionTime (objs ! p)
        \<and> before p + 100 \<le> performanceNow f p q"
    using inv by (auto simp: stamped_def s)
  show ?thesis
  proof (cases "held = Some i \<or> held = Some j")
    case True
    then show ?thesis
      using inv by (auto simp: collidePair_def s)
  next
    case skip: False
    show ?thesis
    proof (cases r)
      case False
      then have "objA = objs ! i"
        using chk checkCollision_False by simp
      then have "collidePair f held (i, j) s = s"
        using skip False chk by (simp add: collidePair_def s)
      then show ?thesis
        using inv by simp
    next
      case True
      then have objA: "objA = (objs ! i)\<lparr> lastCollisionTime := performanceNow f i j \<rparr>"
        and late: "lastCollisionTime (objs ! i) + 100 \<le> performanceNow f i j"
        using chk checkCollision_True [of "objs ! i" "objs ! j" "performanceNow f i j" objA]
        by simp_all
      have sa: "lastCollisionTime a = performanceNow f i j"
        and sb: "lastCollisionTime b = lastCollisionTime (objs ! j)"
        using lastCollisionTime_resolveCollision [OF res] objA by simp_all
      have step: "collidePair f held (i, j) s = (objs[i := a, j := b], resolved @ [(i, j)])"
        using skip True chk res by (simp add: collidePair_def s)
      have i: "i < n" "i \<noteq> j"
        using ij by simp_all
      have nth: "\<And>k. k < n \<Longrightarrow>
          lastCollisionTime (objs[i := a, j := b] ! k)
            = (if k = i then performanceNow f i j else lastCollisionTime (objs ! k))"
        using len i ij sa sb by (auto simp: nth_list_update)
      have mono: "\<And>k. k < n \<Longrightarrow>
          lastCollisionTime (objs ! k) \<le> lastCollisionTime (objs[i := a, j := b] ! k)"
        using nth late by auto
      have "length (objs[i := a, j := b]) = n"
        using len by simp
      moreover have "\<forall>k < n. before k \<le> lastCollisionTime (objs[i := a, j := b] ! k)"
        using lower mono by (meson order_trans)
      moreover have "\<forall>pq \<in> set (resolved @ [(i, j)]).
            fst pq < n
            \<and> performanceNow f (fst pq) (snd pq) \<le> lastCollisionTime (objs[i := a, j := b] ! fst pq)
            \<and> before (fst pq) + 100 \<le> performanceNow f (fst pq) (snd pq)"
      proof
        fix pq assume mem: "pq \<in> set (resolved @ [(i, j)])"
        obtain p q where pq: "pq = (p, q)" by (cases pq)
        show "fst pq < n
            \<and> performanceNow f (fst pq) (snd pq) \<le> lastCollisionTime (objs[i := a, j := b] ! fst pq)
            \<and> before (fst pq) + 100 \<le> performanceNow f (fst pq) (snd pq)"
        proof (cases "(p, q) \<in> set resolved")
          case True
          then have old: "p < n" "performanceNow f p q \<le> lastCollisionTime (objs ! p)"
            "before p + 100 \<le> performanceNow f p q"
            using logged by simp_all
          then show ?thesis
            using mono [of p] by (simp add: pq)
        next
          case False
          then have "p = i" "q = j"
            using mem pq by simp_all
          then show ?thesis
            using i nth [of i] lower [of i] late by (simp add: pq)
        qed
      qed
      ultimately show ?thesis
        by (simp add: stamped_def step)
    qed
  qed
qed


lemma stamped_fold:
  "stamped f n before s \<Longrightarrow> (\<And>i j. (i, j) \<in> set ps \<Longrightarrow> i < j \<and> j < n) \<Longrightarrow>
     stamped f n before (fold (collidePair f held) ps s)"
proof (induction ps arbitrary: s)
  case Nil
  then show ?case by simp
next
  case (Cons p ps)
  obtain i j where p: "p = (i, j)" by (cases p)
  have "i < j \<and> j < n"
    using Cons.prems(2) [of i j] p by simp
  then have step: "stamped f n before (collidePair f held (i, j) s)"
    using Cons.prems(1) by (simp add: stamped_collidePair)
  have "stamped f n before (fold (collidePair f held) ps (collidePair f held (i, j) s))"
  proof (rule Cons.IH)
    show "stamped f n before (collidePair f held (i, j) s)"
      by (rule step)
    show "c < d \<and> d < n" if "(c, d) \<in> set ps" for c d
      using that Cons.prems(2) [of c d] by simp
  qed
  then show ?case
    by (simp add: p)
qed

lemma stamped_collisionPass:
  "stamped f (length objs) (\<lambda>k. lastCollisionTime (objs ! k)) (collisionPass f held objs)"
proof -
  have "stamped f (length objs) (\<lambda>k. lastCollisionTime (objs ! k)) (objs, [])"
    by (simp add: stamped_def)
  then show ?thesis
    unfolding collisionPass_def by (rule stamped_fold) (rule pairs_bounds)
qed

lemma map_update_same:
  assumes "k < length xs \<Longrightarrow> h v = h (xs ! k)"
  shows "map h (xs[k := v]) = map h xs"
proof (cases "k < length xs")
  case True
  then have "map h (xs[k := v]) = (map h xs)[k := map h xs ! k]"
    using assms by (simp add: map_update)
  then show ?thesis by simp
next
  case False
  then show ?thesis by (simp add: list_update_beyond)
qed

lemma lastCollisionTime_ground: "lastCollisionTime (ground b) = lastCollisionTime b"
  by (simp add: ground_def Let_def)

lemma lastCollisionTime_boundX: "lastCollisionTime (boundX b) = lastCollisionTime b"
  by (simp add: boundX_def Let_def)

lemma lastCollisionTime_boundZ: "lastCollisionTime (boundZ b) = lastCollisionTime b"
  by (simp add: boundZ_def Let_def)

lemma lastCollisionTime_integrate: "lastCollisionTime (integrate deltaTime b) = lastCollisionTime b"
  by (simp add: integrate_def Let_def)

lemma lastCollisionTime_update:
  "lastCollisionTime (update deltaTime handPosition b) = lastCollisionTime b"
  by (simp add: update_def lastCollisionTime_ground lastCollisionTime_boundX
      lastCollisionTime_boundZ lastCollisionTime_integrate split: option.splits bool.splits)

lemma stamps_startGrab:
  "map lastCollisionTime (physicsObjects (startGrab f g)) = map lastCollisionTime (physicsObjects g)"
  by (simp add: startGrab_def Let_def map_update_same grab_def split: list.splits)

lemma stamps_throwHeld:
  "map lastCollisionTime (physicsObjects (throwHeld f k g)) = map lastCollisionTime (physicsObjects g)"
  by (simp add: throwHeld_def map_update_same release_def split: prod.splits)

lemma stamps_handleGrab:
  "map lastCollisionTime (physicsObjects (handleGrab f g)) = map lastCollisionTime (physicsObjects g)"
  by (simp add: handleGrab_def keepHolding_def Let_def stamps_startGrab stamps_throwHeld
      split: option.splits)

lemma stamps_updateHeld:
  "map lastCollisionTime (physicsObjects (updateHeld f g)) = map lastCollisionTime (physicsObjects g)"
  by (simp add: updateHeld_def map_update_same lastCollisionTime_update split: option.splits)

lemma stamps_updateFreeStep:
  "map lastCollisionTime (updateFreeStep deltaTime held k objs) = map lastCollisionTime objs"
  by (simp add: updateFreeStep_def map_update_same lastCollisionTime_update)

lemma stamps_updateFree_fold:
  "map lastCollisionTime (fold (updateFreeStep deltaTime held) ks objs) = map lastCollisionTime objs"
  by (induction ks arbitrary: objs) (simp_all add: stamps_updateFreeStep)

lemma stamps_beforeCollisions:
  "map lastCollisionTime (physicsObjects (beforeCollisions f g))
     = map lastCollisionTime (physicsObjects g)"
  by (simp add: beforeCollisions_def updateFree_def stamps_updateFree_fold stamps_updateHeld
      stamps_handleGrab trackHand_def)

lemma stamps_nth:
  "map lastCollisionTime xs = map lastCollisionTime ys \<Longrightarrow> k < length ys \<Longrightarrow>
     lastCollisionTime (xs ! k) = lastCollisionTime (ys ! k)"
  by (metis length_map nth_map)

lemma stamped_tick:
  "stamped f (length (physicsObjects g)) (\<lambda>k. lastCollisionTime (physicsObjects g ! k))
     (physicsObjects (Game_update f g), resolvedPairs f g)"
proof -
  let ?g' = "beforeCollisions f g"
  have eq: "map lastCollisionTime (physicsObjects ?g') = map lastCollisionTime (physicsObjects g)"
    by (rule stamps_beforeCollisions)
  then have len: "length (physicsObjects ?g') = length (physicsObjects g)"
    using length_map by metis
  have "stamped f (length (physicsObjects ?g')) (\<lambda>k. lastCollisionTime (physicsObjects ?g' ! k))
     (collisionPass f (heldObject ?g') (physicsObjects ?g'))"
    by (rule stamped_collisionPass)
  moreover have "collisionPass f (heldObject ?g') (physicsObjects ?g')
      = (physicsObjects (Game_update f g), resolvedPairs f g)"
    by (simp add: Game_update_def collisions_def resolvedPairs_def)
  ultimately show ?thesis
    using len stamps_nth [OF eq] by (auto simp: stamped_def)
qed

lemma length_Game_update: "length (physicsObjects (Game_update f g)) = length (physicsObjects g)"
  using stamped_tick [of f g] by (simp add: stamped_def)

lemma stamp_Game_update:
  "k < length (physicsObjects g) \<Longrightarrow>
     lastCollisionTime (physicsObjects g ! k) \<le> lastCollisionTime (physicsObjects (Game_update f g) ! k)"
  using stamped_tick [of f g] by (simp add: stamped_def)

lemma stamp_run:
  "k < length (physicsObjects g) \<Longrightarrow>
     length (physicsObjects (fold Game_update fs g)) = length (physicsObjects g)
     \<and> lastCollisionTime (physicsObjects g ! k)
         \<le> lastCollisionTime (physicsObjects (fold Game_update fs g) ! k)"
proof (induction fs arbitrary: g)
  case Nil
  then show ?case by simp
next
  case (Cons f fs)
  have k: "k < length (physicsObjects (Game_update f g))"
    using Cons.prems by (simp add: length_Game_update)
  show ?case
    using Cons.IH [OF k] stamp_Game_update [OF Cons.prems, of f]
    by (simp add: length_Game_update)
qed

lemma resolved_stamp:
  "(i, j) \<in> set (resolvedPairs f g) \<Longrightarrow>
     i < length (physicsObjects g)
     \<and> performanceNow f i j \<le> lastCollisionTime (physicsObjects (Game_update f g) ! i)
     \<and> lastCollisionTime (physicsObjects g ! i) + 100 \<le> performanceNow f i j"
  using stamped_tick [of f g] by (auto simp: stamped_def)

lemma distanceTo_vertical: "distanceTo (Vector3 x y1 z) (Vector3 x y2 z) = \<bar>y1 - y2\<bar>"
  by (simp add: distanceTo_def)

lemma upt_2: "[0..<2] = [0, 1]"
  by code_simp

lemma pairs_2: "pairs (Suc (Suc 0)) = [(0, 1)]"
  by (simp add: pairs_def)

lemma twoBalls_before:
  "physicsObjects (beforeCollisions (idleFrame t) twoBalls)
     = [update (1 / 60) None (newPhysicsObject (Vector3 0 1 0)),
        update (1 / 60) None (newPhysicsObject (Vector3 0 (6 / 5) 0))]
   \<and> heldObject (beforeCollisions (idleFrame t) twoBalls) = None"
  by (simp add: beforeCollisions_def updateFree_def updateHeld_def handleGrab_def trackHand_def
      twoBalls_def idleFrame_def upt_2 updateFreeStep_def)

lemma falling:
  "\<not> isHeld (update (1 / 60) None (newPhysicsObject (Vector3 0 h 0)))
   \<and> lastCollisionTime (update (1 / 60) None (newPhysicsObject (Vector3 0 h 0))) = 0
   \<and> radius (update (1 / 60) None (newPhysicsObject (Vector3 0 h 0))) = 1 / 4
   \<and> (1 \<le> h \<longrightarrow> position (update (1 / 60) None (newPhysicsObject (Vector3 0 h 0)))
        = Vector3 0 (h - 981 / 100 * (1 / 60) * (1 / 60)) 0)"
  by (simp add: update_def integrate_def ground_def boundX_def boundZ_def newPhysicsObject_def
      addScaledVector_def multiplyScalar_def GRAVITY_def GROUND_Y_def BALL_RADIUS_def zeroV_def
      Let_def)

lemma falling_overlap:
  "checkCollision (update (1 / 60) None (newPhysicsObject (Vector3 0 1 0)))
       (update (1 / 60) None (newPhysicsObject (Vector3 0 (6 / 5) 0))) t
     = (100 \<le> t,
        if 100 \<le> t
        then (update (1 / 60) None (newPhysicsObject (Vector3 0 1 0)))\<lparr> lastCollisionTime := t \<rparr>
        else update (1 / 60) None (newPhysicsObject (Vector3 0 1 0)))"
  using falling [of 1] falling [of "6 / 5"]
  by (simp add: checkCollision_def distanceTo_vertical Let_def)

lemma twoBalls_resolved:
  "resolvedPairs (idleFrame t) twoBalls = (if 100 \<le> t then [(0, 1)] else [])"
proof -
  have now: "performanceNow (idleFrame t) i j = t" for i j
    by (simp add: idleFrame_def)
  show ?thesis
    unfolding resolvedPairs_def collisionPass_def
    by (simp add: twoBalls_before pairs_2 collidePair_def falling_overlap now split: prod.splits)
qed


lemma resolved_collidePair:
  "set (snd (collidePair f held p s)) \<subseteq> insert p (set (snd s))"
  by (cases p; cases s) (auto simp: collidePair_def split: prod.splits bool.splits)

lemma resolved_fold:
  "set (snd (fold (collidePair f held) ps s)) \<subseteq> set ps \<union> set (snd s)"
proof (induction ps arbitrary: s)
  case Nil
  then show ?case by simp
next
  case (Cons p ps)
  have "set (snd (fold (collidePair f held) ps (collidePair f held p s)))
          \<subseteq> set ps \<union> set (snd (collidePair f held p s))"
    by (rule Cons.IH)
  then show ?case
    using resolved_collidePair [of f held p s] by auto
qed

lemma resolved_ordered: "(i, j) \<in> set (resolvedPairs f g) \<Longrightarrow> i < j"
proof -
  assume "(i, j) \<in> set (resolvedPairs f g)"
  then have "(i, j) \<in> set (pairs (length (physicsObjects (beforeCollisions f g))))"
    using resolved_fold [of f "heldObject (beforeCollisions f g)"
        "pairs (length (physicsObjects (beforeCollisions f g)))"
        "(physicsObjects (beforeCollisions f g), [])"]
    by (auto simp: resolvedPairs_def collisionPass_def)
  then show ?thesis
    by (simp add: pairs_bounds)
qed

text \<open>
  C4. A positive \<open>checkCollision\<close> stamps the querying body with the clock reading. If
  \<open>resolveCollision\<close> ran for the pair \<open>(i, j)\<close> in a tick, then after any number of
  further ticks it does not run for that pair, in either order, in a tick whose clock
  reading at the pair's check is less than 100 ms after the reading of the first, whether
  or not the two bodies still overlap.
\<close>

theorem collision_debounce:
  "(fst (checkCollision a b t) \<longrightarrow> lastCollisionTime (snd (checkCollision a b t)) = t)
   \<and> ((i, j) \<in> set (resolvedPairs f g) \<longrightarrow>
        performanceNow f' i j - performanceNow f i j < 100 \<longrightarrow>
        (i, j) \<notin> set (resolvedPairs f' (fold Game_update fs (Game_update f g)))
        \<and> (j, i) \<notin> set (resolvedPairs f' (fold Game_update fs (Game_update f g))))"
proof -
  have stamp: "fst (checkCollision a b t) \<longrightarrow> lastCollisionTime (snd (checkCollision a b t)) = t"
    by (simp add: checkCollision_def Let_def)
  have again: "(i, j) \<notin> set (resolvedPairs f' (fold Game_update fs (Game_update f g)))"
    if first: "(i, j) \<in> set (resolvedPairs f g)"
      and soon: "performanceNow f' i j - performanceNow f i j < 100"
  proof
    let ?g1 = "Game_update f g"
    let ?g2 = "fold Game_update fs ?g1"
    assume again: "(i, j) \<in> set (resolvedPairs f' ?g2)"
    have i: "i < length (physicsObjects ?g1)"
      and t1: "performanceNow f i j \<le> lastCollisionTime (physicsObjects ?g1 ! i)"
      using resolved_stamp [OF first] by (simp_all add: length_Game_update)
    have t2: "lastCollisionTime (physicsObjects ?g1 ! i) \<le> lastCollisionTime (physicsObjects ?g2 ! i)"
      using stamp_run [OF i] by simp
    have "lastCollisionTime (physicsObjects ?g2 ! i) + 100 \<le> performanceNow f' i j"
      using resolved_stamp [OF again] by simp
    then show False
      using t1 t2 soon by linarith
  qed
  have swapped: "(j, i) \<notin> set (resolvedPairs f' (fold Game_update fs (Game_update f g)))"
    if first: "(i, j) \<in> set (resolvedPairs f g)"
  proof
    assume "(j, i) \<in> set (resolvedPairs f' (fold Game_update fs (Game_update f g)))"
    then have "j < i"
      by (rule resolved_ordered)
    moreover have "i < j"
      using first by (rule resolved_ordered)
    ultimately show False by simp
  qed
  show ?thesis
    using stamp again swapped by blast
qed

theorem collision_debounce_witness:
  "fst (checkCollision (newPhysicsObject (Vector3 0 1 0)) (newPhysicsObject (Vector3 0 (6 / 5) 0)) 1000)
   \<and> lastCollisionTime (snd (checkCollision (newPhysicsObject (Vector3 0 1 0))
                                (newPhysicsObject (Vector3 0 (6 / 5) 0)) 1000)) = 1000
   \<and> (0, 1) \<in> set (resolvedPairs (idleFrame 1000) twoBalls)
   \<and> performanceNow (idleFrame 1050) 0 1 - performanceNow (idleFrame 1000) 0 1 < 100
   \<and> (0, 1) \<notin> set (resolvedPairs (idleFrame 1050)
                       (fold Game_update [idleFrame 1017, idleFrame 1033]
                          (Game_update (idleFrame 1000) twoBalls)))
   \<and> (1, 0) \<notin> set (resolvedPairs (idleFrame 1050)
                       (fold Game_update [idleFrame 1017, idleFrame 1033]
                          (Game_update (idleFrame 1000) twoBalls)))"
proof -
  have check: "fst (checkCollision (newPhysicsObject (Vector3 0 1 0))
                      (newPhysicsObject (Vector3 0 (6 / 5) 0)) 1000)"
    by (simp add: checkCollision_def newPhysicsObject_def distanceTo_vertical Let_def
        GROUND_Y_def BALL_RADIUS_def)
  have first: "(0, 1) \<in> set (resolvedPairs (idleFrame 1000) twoBalls)"
    by (simp add: twoBalls_resolved)
  have soon: "performanceNow (idleFrame 1050) 0 1 - performanceNow (idleFrame 1000) 0 1 < 100"
    by (simp add: idleFrame_def)
  show ?thesis
    using check first soon
      collision_debounce [of "newPhysicsObject (Vector3 0 1 0)"
        "newPhysicsObject (Vector3 0 (6 / 5) 0)" 1000 0 1 "idleFrame 1000" twoBalls
        "idleFrame 1050" "[idleFrame 1017, idleFrame 1033]"]
    by simp
qed


end
